theory Spec2Isabelle
  imports Complex_Main "HOL-Library.AList"
begin

section \<open>Python values, errors and dictionaries\<close>

text \<open>
  The module \<^verbatim>\<open>rfscopedb/data_model.py\<close> holds two classes, \<^verbatim>\<open>Scan\<close> and
  \<^verbatim>\<open>Query\<close>. Every exception of the source is a value of \<open>error\<close>; a method that
  mutates \<^verbatim>\<open>self\<close> returns the object as it is when the call ends, also when the
  call ends with an exception. The messages of the exceptions are not modelled.
  \<open>DatabaseError n\<close> is a \<^verbatim>\<open>mysql.connector.Error\<close> with error number \<open>n\<close>.
\<close>

datatype error =
    TypeError
  | ValueError
  | KeyError string
  | IndexError
  | AttributeError
  | RuntimeError
  | ZeroDivisionError
  | DatabaseError nat

text \<open>
  A Python \<^verbatim>\<open>dict\<close> keeps its keys in insertion order, and the order decides the
  order of the rows that are written, so a dictionary is an association list.
  \<open>AList.update\<close> is the assignment \<^verbatim>\<open>d[k] = v\<close>: an existing key keeps its place, a
  new key goes to the end. \<open>dict_update\<close> is \<^verbatim>\<open>d.update(other)\<close>, which assigns the
  items of \<open>other\<close> in their order.
\<close>

definition dict_update :: "('k \<times> 'v) list \<Rightarrow> ('k \<times> 'v) list \<Rightarrow> ('k \<times> 'v) list" where
  "dict_update d other = fold (\<lambda>(k, v). AList.update k v) other d"

definition getitem :: "(string \<times> 'v) list \<Rightarrow> string \<Rightarrow> error + 'v" where
  "getitem d k = (case map_of d k of None \<Rightarrow> Inl (KeyError k) | Some v \<Rightarrow> Inr v)"

text \<open>
  The value handed over as a waveform is any Python object. \<open>elem\<close> is one element of
  a one-dimensional sequence: \<open>Num\<close> for an element that numpy converts to a number,
  \<open>NonNum\<close> for any other (a string, \<^verbatim>\<open>None\<close>, an object), which makes the dtype of
  \<^verbatim>\<open>np.array(arr)\<close> a non-number dtype. Finite float64 values are modelled by the
  real numbers they denote; rounding, infinities and NaN are outside the model.
\<close>

datatype elem = Num real | NonNum

datatype pyobj =
    PyList "elem list"
  | PyTuple "elem list"
  | NdArray "elem list"
  | PyOther

fun is_num :: "elem \<Rightarrow> bool" where
  "is_num (Num v) = True"
| "is_num NonNum = False"

fun num_val :: "elem \<Rightarrow> real" where
  "num_val (Num v) = v"
| "num_val NonNum = 0"

text \<open>\<^verbatim>\<open>isinstance(arr, (list, np.ndarray, tuple))\<close>, with the elements when it holds.\<close>

fun as_sequence :: "pyobj \<Rightarrow> elem list option" where
  "as_sequence (PyList xs) = Some xs"
| "as_sequence (PyTuple xs) = Some xs"
| "as_sequence (NdArray xs) = Some xs"
| "as_sequence PyOther = None"

section \<open>The signal analyzer\<close>

text \<open>The numpy reductions that \<^verbatim>\<open>analyze_signal\<close> calls, on a non-empty array.\<close>

definition np_min :: "real list \<Rightarrow> real" where
  "np_min xs = Min (set xs)"

definition np_max :: "real list \<Rightarrow> real" where
  "np_max xs = Max (set xs)"

definition np_mean :: "real list \<Rightarrow> real" where
  "np_mean xs = sum_list xs / real (length xs)"

definition np_square :: "real list \<Rightarrow> real list" where
  "np_square xs = map (\<lambda>x. x * x) xs"

definition np_median :: "real list \<Rightarrow> real" where
  "np_median xs =
     (let s = sort xs; n = length xs
      in if even n then (s ! (n div 2 - 1) + s ! (n div 2)) / 2 else s ! (n div 2))"

text \<open>\<^verbatim>\<open>np.std\<close> with its default \<^verbatim>\<open>ddof=0\<close>: the population standard deviation.\<close>

definition np_std :: "real list \<Rightarrow> real" where
  "np_std xs = sqrt (np_mean (np_square (map (\<lambda>x. x - np_mean xs) xs)))"

text \<open>\<^verbatim>\<open>np.percentile\<close> with its default linear interpolation between the two
  neighbouring order statistics.\<close>

definition np_percentile :: "real list \<Rightarrow> real \<Rightarrow> real" where
  "np_percentile xs q =
     (let s = sort xs; n = length xs;
          pos = q / 100 * real (n - 1);
          lo = nat \<lfloor>pos\<rfloor>;
          hi = min (lo + 1) (n - 1)
      in s ! lo + (s ! hi - s ! lo) * (pos - real lo))"

text \<open>\<^verbatim>\<open>np.argmax\<close>: the first index that holds the maximum.\<close>

definition np_argmax :: "real list \<Rightarrow> nat" where
  "np_argmax xs = length (takeWhile (\<lambda>x. x \<noteq> Max (set xs)) xs)"

text \<open>
  The libraries and the helper module that the source calls and that are not part of
  the file: \<^verbatim>\<open>scipy.signal.periodogram\<close> (it returns the frequency axis and the
  power-spectral-density estimate), \<^verbatim>\<open>json.dumps\<close> on the list of an array (it raises
  when an element cannot be serialised), and the timestamp text
  \<^verbatim>\<open>get_datetime_as_utc(t).strftime(fmt)\<close> of \<^verbatim>\<open>rfscopedb/utils.py\<close>. They are
  parameters of the model. A \<open>datetime\<close> is an instant in microseconds.
\<close>

type_synonym datetime = int

record ext =
  periodogram :: "real list \<Rightarrow> real \<Rightarrow> real list \<times> real list"
  json_dumps :: "elem list \<Rightarrow> error + string"
  utc_string :: "datetime \<Rightarrow> string"

type_synonym scalars = "(string \<times> real) list"
type_synonym arrays = "(string \<times> real list) list"

definition analyze_signal :: "ext \<Rightarrow> pyobj \<Rightarrow> real \<Rightarrow> error + scalars \<times> arrays" where
  "analyze_signal lib arr sampling_rate =
     (case as_sequence arr of
        None \<Rightarrow> Inl TypeError
      | Some es \<Rightarrow>
          if \<not> list_all is_num es then Inl ValueError
          else if length es \<noteq> 8192 then Inl ValueError
          else
            let xs = map num_val es;
                min_val = np_min xs;
                max_val = np_max xs;
                (f, pxx_den) = periodogram lib xs sampling_rate
            in if pxx_den = [] then Inl ValueError
               else if length f \<le> np_argmax pxx_den then Inl IndexError
               else Inr
                 ([(''minimum'', min_val),
                   (''maximum'', max_val),
                   (''peak_to_peak'', max_val - min_val),
                   (''mean'', np_mean xs),
                   (''median'', np_median xs),
                   (''standard_deviation'', np_std xs),
                   (''rms'', sqrt (np_mean (np_square xs))),
                   (''25th_quartile'', np_percentile xs 25),
                   (''75th_quartile'', np_percentile xs 75),
                   (''dominant_frequency'', f ! np_argmax pxx_den)],
                  [(''power_spectrum'', pxx_den)]))"

section \<open>The frequency axis\<close>

text \<open>
  \<^verbatim>\<open>int(n_samples/2)\<close> rounds towards zero; \<^verbatim>\<open>range\<close> of a number below one is
  empty; the division by \<^verbatim>\<open>n_samples\<close> raises when it is zero and the list has an
  element.
\<close>

definition int_half :: "int \<Rightarrow> int" where
  "int_half n = (if 0 \<le> n then n div 2 else - ((- n) div 2))"

definition get_frequency_range :: "real \<Rightarrow> int \<Rightarrow> error + real list" where
  "get_frequency_range fs n_samples =
     (let stop = nat (int_half n_samples + 1)
      in if stop = 0 then Inr []
         else if n_samples = 0 then Inl ZeroDivisionError
         else Inr (map (\<lambda>i. real i * fs / real_of_int n_samples) [0..<stop]))"

section \<open>The Scan object\<close>

text \<open>
  The attributes of \<^verbatim>\<open>Scan\<close>, as \<^verbatim>\<open>__init__\<close> declares them. The attribute
  \<^verbatim>\<open>id\<close> is \<open>scan_id\<close>, \<^verbatim>\<open>start\<close> and \<^verbatim>\<open>end\<close> are \<open>scan_start\<close> and
  \<open>scan_end\<close>.
\<close>

record scan =
  scan_id :: "int option"
  scan_start :: datetime
  scan_end :: datetime
  waveform_data :: "(string \<times> (string \<times> pyobj) list) list"
  sampling_rate :: "(string \<times> real) list"
  analysis_scalar :: "(string \<times> (string \<times> scalars) list) list"
  analysis_array :: "(string \<times> (string \<times> arrays) list) list"
  scan_data_float :: "(string \<times> real) list"
  scan_data_str :: "(string \<times> string) list"

definition Scan :: "datetime \<Rightarrow> datetime \<Rightarrow> int option \<Rightarrow> scan" where
  "Scan start_time end_time sid =
     \<lparr>scan_id = sid, scan_start = start_time, scan_end = end_time,
      waveform_data = [], sampling_rate = [],
      analysis_scalar = [], analysis_array = [],
      scan_data_float = [], scan_data_str = []\<rparr>"

text \<open>
  \<^verbatim>\<open>add_scan_data\<close>: the loop looks for the first key of \<^verbatim>\<open>float_data\<close> that is a key
  of \<^verbatim>\<open>str_data\<close> and raises there; the two updates come after the loop.
\<close>

definition add_scan_data ::
  "(string \<times> real) list \<Rightarrow> (string \<times> string) list \<Rightarrow> scan \<Rightarrow> (error + unit) \<times> scan" where
  "add_scan_data float_data str_data self =
     (case find (\<lambda>k. k \<in> set (map fst str_data)) (map fst float_data) of
        Some k \<Rightarrow> (Inl ValueError, self)
      | None \<Rightarrow>
          (Inr (),
           self\<lparr>scan_data_float := dict_update (scan_data_float self) float_data,
                scan_data_str := dict_update (scan_data_str self) str_data\<rparr>))"

text \<open>\<^verbatim>\<open>d[k1][k2] = v\<close>: the inner dictionary must exist, and is changed in place.\<close>

definition setitem2 ::
  "(string \<times> (string \<times> 'v) list) list \<Rightarrow> string \<Rightarrow> string \<Rightarrow> 'v
     \<Rightarrow> error + (string \<times> (string \<times> 'v) list) list" where
  "setitem2 d k1 k2 v =
     (case getitem d k1 of
        Inl e \<Rightarrow> Inl e
      | Inr inner \<Rightarrow> Inr (AList.update k1 (AList.update k2 v inner) d))"

text \<open>
  The loop of \<^verbatim>\<open>add_cavity_data\<close> over \<^verbatim>\<open>data.keys()\<close>. An exception of
  \<^verbatim>\<open>analyze_signal\<close> leaves the loop with the object as it is at that moment. The
  inner loop copies the items of \<^verbatim>\<open>arrays\<close> into a new dictionary.
\<close>

fun analyze_signals ::
  "ext \<Rightarrow> string \<Rightarrow> (string \<times> pyobj) list \<Rightarrow> real \<Rightarrow> string list \<Rightarrow> scan
     \<Rightarrow> (error + unit) \<times> scan" where
  "analyze_signals lib cavity data rate [] self = (Inr (), self)"
| "analyze_signals lib cavity data rate (signal_name # rest) self =
     (if signal_name = ''Time'' then analyze_signals lib cavity data rate rest self
      else
        case getitem data signal_name of
          Inl e \<Rightarrow> (Inl e, self)
        | Inr arr \<Rightarrow>
            (case analyze_signal lib arr rate of
               Inl e \<Rightarrow> (Inl e, self)
             | Inr (scalars, arrays) \<Rightarrow>
                 (case setitem2 (analysis_scalar self) cavity signal_name scalars of
                    Inl e \<Rightarrow> (Inl e, self)
                  | Inr sc \<Rightarrow>
                      (case setitem2 (analysis_array self) cavity signal_name
                              (dict_update [] arrays) of
                         Inl e \<Rightarrow> (Inl e, self\<lparr>analysis_scalar := sc\<rparr>)
                       | Inr ar \<Rightarrow>
                           analyze_signals lib cavity data rate rest
                             (self\<lparr>analysis_scalar := sc, analysis_array := ar\<rparr>)))))"

definition add_cavity_data ::
  "ext \<Rightarrow> string \<Rightarrow> (string \<times> pyobj) list \<Rightarrow> real \<Rightarrow> scan \<Rightarrow> (error + unit) \<times> scan" where
  "add_cavity_data lib cavity data rate self =
     analyze_signals lib cavity data rate (map fst data)
       (self\<lparr>waveform_data := AList.update cavity data (waveform_data self),
             analysis_scalar := AList.update cavity [] (analysis_scalar self),
             analysis_array := AList.update cavity [] (analysis_array self),
             sampling_rate := AList.update cavity rate (sampling_rate self)\<rparr>)"


section \<open>The database connection\<close>

text \<open>
  The connection is a \<^verbatim>\<open>mysql.connector\<close> connection with autocommit off, as the
  source notes. Its state: the rows that are committed, the rows written by the open
  transaction, the two auto-increment counters and \<^verbatim>\<open>LAST_INSERT_ID()\<close>, the
  statements issued so far, and the number of open cursors. Any call of
  \<^verbatim>\<open>conn.cursor\<close>, \<^verbatim>\<open>cursor.execute\<close>, \<^verbatim>\<open>cursor.executemany\<close> and \<^verbatim>\<open>conn.commit\<close>
  may raise (a constraint violation, a lost connection): \<open>faults c k\<close> is the error of
  the call number \<open>k\<close>, if it has one. \<^verbatim>\<open>conn.rollback\<close> and \<^verbatim>\<open>cursor.close\<close> are the
  recovery calls of the handler, and the model takes them not to raise.
\<close>

datatype dbrow =
    ScanRow int string string
  | WaveformRow int int string string real
  | WaveformAdataRow int string string
  | WaveformSdataRow int string real
  | ScanFdataRow int string real
  | ScanSdataRow int string string

datatype stmt =
    InsertScan string string
  | SelectLastInsertId
  | InsertWaveform int string string real
  | InsertWaveformAdata "(int \<times> string \<times> string) list"
  | InsertWaveformSdata "(int \<times> string \<times> real) list"
  | InsertScanFdata "(int \<times> string \<times> real) list"
  | InsertScanSdata "(int \<times> string \<times> string) list"

record conn =
  committed :: "dbrow list"
  pending :: "dbrow list"
  next_sid :: int
  next_wid :: int
  last_insert_id :: int
  statements :: "stmt list"
  open_cursors :: nat
  calls :: nat
  faults :: "nat \<Rightarrow> error option"

type_synonym 'a db = "conn \<Rightarrow> (error + 'a) \<times> conn"

definition bind_db :: "'a db \<Rightarrow> ('a \<Rightarrow> 'b db) \<Rightarrow> 'b db" where
  "bind_db m f c = (case m c of (Inl e, c') \<Rightarrow> (Inl e, c') | (Inr x, c') \<Rightarrow> f x c')"

definition return_db :: "'a \<Rightarrow> 'a db" where
  "return_db x c = (Inr x, c)"

text \<open>The value of a Python expression that may raise, inside the transaction.\<close>

definition lift_db :: "error + 'a \<Rightarrow> 'a db" where
  "lift_db r c = (r, c)"

definition bind_err :: "error + 'a \<Rightarrow> ('a \<Rightarrow> error + 'b) \<Rightarrow> error + 'b" where
  "bind_err r f = (case r of Inl e \<Rightarrow> Inl e | Inr x \<Rightarrow> f x)"

text \<open>One call of the driver: it counts, and it raises when the schedule says so.\<close>

definition driver_call :: "unit db" where
  "driver_call c =
     (case faults c (calls c) of
        Some e \<Rightarrow> (Inl e, c\<lparr>calls := Suc (calls c)\<rparr>)
      | None \<Rightarrow> (Inr (), c\<lparr>calls := Suc (calls c)\<rparr>))"

text \<open>What a statement that the server accepts does to the open transaction.\<close>

fun effect :: "stmt \<Rightarrow> conn \<Rightarrow> conn" where
  "effect (InsertScan s e) c =
     c\<lparr>pending := pending c @ [ScanRow (next_sid c) s e],
       last_insert_id := next_sid c, next_sid := next_sid c + 1\<rparr>"
| "effect SelectLastInsertId c = c"
| "effect (InsertWaveform sid cav sig rate) c =
     c\<lparr>pending := pending c @ [WaveformRow (next_wid c) sid cav sig rate],
       last_insert_id := next_wid c, next_wid := next_wid c + 1\<rparr>"
| "effect (InsertWaveformAdata rows) c =
     c\<lparr>pending := pending c @ map (\<lambda>(wid, name, d). WaveformAdataRow wid name d) rows\<rparr>"
| "effect (InsertWaveformSdata rows) c =
     c\<lparr>pending := pending c @ map (\<lambda>(wid, name, v). WaveformSdataRow wid name v) rows\<rparr>"
| "effect (InsertScanFdata rows) c =
     c\<lparr>pending := pending c @ map (\<lambda>(sid, name, v). ScanFdataRow sid name v) rows\<rparr>"
| "effect (InsertScanSdata rows) c =
     c\<lparr>pending := pending c @ map (\<lambda>(sid, name, v). ScanSdataRow sid name v) rows\<rparr>"

text \<open>\<^verbatim>\<open>cursor.execute\<close> and \<^verbatim>\<open>cursor.executemany\<close>: the statement is issued, and it
  takes effect unless the call raises.\<close>

definition execute :: "stmt \<Rightarrow> unit db" where
  "execute st c =
     (case driver_call (c\<lparr>statements := statements c @ [st]\<rparr>) of
        (Inl e, c') \<Rightarrow> (Inl e, c')
      | (Inr u, c') \<Rightarrow> (Inr (), effect st c'))"

text \<open>\<^verbatim>\<open>cursor.fetchone()[0]\<close> after \<^verbatim>\<open>SELECT LAST_INSERT_ID()\<close>.\<close>

definition fetchone_id :: "int db" where
  "fetchone_id c = (Inr (last_insert_id c), c)"

definition cursor :: "unit db" where
  "cursor c =
     (case driver_call c of
        (Inl e, c') \<Rightarrow> (Inl e, c')
      | (Inr u, c') \<Rightarrow> (Inr (), c'\<lparr>open_cursors := Suc (open_cursors c')\<rparr>))"

definition commit :: "unit db" where
  "commit c =
     (case driver_call c of
        (Inl e, c') \<Rightarrow> (Inl e, c')
      | (Inr u, c') \<Rightarrow> (Inr (), c'\<lparr>committed := committed c' @ pending c', pending := []\<rparr>))"

definition rollback :: "conn \<Rightarrow> conn" where
  "rollback c = c\<lparr>pending := []\<rparr>"

definition close :: "conn \<Rightarrow> conn" where
  "close c = c\<lparr>open_cursors := open_cursors c - 1\<rparr>"

section \<open>Writing a Scan\<close>

definition insert_waveform :: "scan \<Rightarrow> int \<Rightarrow> string \<Rightarrow> string \<Rightarrow> int db" where
  "insert_waveform self sid cav signal_name =
     bind_db (lift_db (getitem (sampling_rate self) cav)) (\<lambda>rate.
     bind_db (execute (InsertWaveform sid cav signal_name rate)) (\<lambda>u.
     bind_db (execute SelectLastInsertId) (\<lambda>u.
     fetchone_id)))"

text \<open>\<^verbatim>\<open>.tolist()\<close>: an ndarray has it, a list and a tuple do not; \<open>PyOther\<close> is an
  object without it.\<close>

fun tolist :: "pyobj \<Rightarrow> error + elem list" where
  "tolist (NdArray xs) = Inr xs"
| "tolist (PyList xs) = Inl AttributeError"
| "tolist (PyTuple xs) = Inl AttributeError"
| "tolist PyOther = Inl AttributeError"

text \<open>The rows of the derived arrays, one for each item of the dictionary; the arrays
  are the ndarrays that the analysis stored.\<close>

fun derived_rows :: "ext \<Rightarrow> int \<Rightarrow> arrays \<Rightarrow> error + (int \<times> string \<times> string) list" where
  "derived_rows lib wid [] = Inr []"
| "derived_rows lib wid ((arr_name, a) # rest) =
     bind_err (json_dumps lib (map Num a)) (\<lambda>j.
     bind_err (derived_rows lib wid rest) (\<lambda>rows.
     Inr ((wid, arr_name, j) # rows)))"

definition array_data ::
  "ext \<Rightarrow> scan \<Rightarrow> int \<Rightarrow> string \<Rightarrow> string \<Rightarrow> error + (int \<times> string \<times> string) list" where
  "array_data lib self wid cav signal_name =
     bind_err (getitem (waveform_data self) cav) (\<lambda>data.
     bind_err (getitem data signal_name) (\<lambda>arr.
     bind_err (tolist arr) (\<lambda>l.
     bind_err (json_dumps lib l) (\<lambda>raw.
     bind_err (getitem (analysis_array self) cav) (\<lambda>by_signal.
     bind_err (getitem by_signal signal_name) (\<lambda>arrs.
     bind_err (derived_rows lib wid arrs) (\<lambda>rows.
     Inr ((wid, ''raw'', raw) # rows))))))))"

definition insert_waveform_adata :: "ext \<Rightarrow> scan \<Rightarrow> int \<Rightarrow> string \<Rightarrow> string \<Rightarrow> unit db" where
  "insert_waveform_adata lib self wid cav signal_name =
     bind_db (lift_db (array_data lib self wid cav signal_name)) (\<lambda>rows.
     execute (InsertWaveformAdata rows))"

definition scalar_data ::
  "scan \<Rightarrow> int \<Rightarrow> string \<Rightarrow> string \<Rightarrow> error + (int \<times> string \<times> real) list" where
  "scalar_data self wid cav signal_name =
     bind_err (getitem (analysis_scalar self) cav) (\<lambda>by_signal.
     bind_err (getitem by_signal signal_name) (\<lambda>metrics.
     Inr (map (\<lambda>(metric_name, v). (wid, metric_name, v)) metrics)))"

definition insert_waveform_sdata :: "scan \<Rightarrow> int \<Rightarrow> string \<Rightarrow> string \<Rightarrow> unit db" where
  "insert_waveform_sdata self wid cav signal_name =
     bind_db (lift_db (scalar_data self wid cav signal_name)) (\<lambda>rows.
     execute (InsertWaveformSdata rows))"

definition insert_scan_fdata :: "scan \<Rightarrow> int \<Rightarrow> unit db" where
  "insert_scan_fdata self sid =
     (let rows = map (\<lambda>(k, v). (sid, k, v)) (scan_data_float self)
      in if length rows > 0 then execute (InsertScanFdata rows) else return_db ())"

definition insert_scan_sdata :: "scan \<Rightarrow> int \<Rightarrow> unit db" where
  "insert_scan_sdata self sid =
     (let rows = map (\<lambda>(k, v). (sid, k, v)) (scan_data_str self)
      in if length rows > 0 then execute (InsertScanSdata rows) else return_db ())"

text \<open>The inner loop of \<^verbatim>\<open>insert_data\<close>, over the signal names of one cavity.\<close>

fun insert_signals :: "ext \<Rightarrow> scan \<Rightarrow> int \<Rightarrow> string \<Rightarrow> string list \<Rightarrow> unit db" where
  "insert_signals lib self sid cav [] = return_db ()"
| "insert_signals lib self sid cav (signal_name # rest) =
     (if signal_name = ''Time'' then insert_signals lib self sid cav rest
      else
        bind_db (insert_waveform self sid cav signal_name) (\<lambda>wid.
        bind_db (insert_waveform_adata lib self wid cav signal_name) (\<lambda>u.
        bind_db (insert_waveform_sdata self wid cav signal_name) (\<lambda>u.
        insert_signals lib self sid cav rest))))"

text \<open>The outer loop, over the items of \<^verbatim>\<open>self.waveform_data\<close>.\<close>

fun insert_cavities ::
  "ext \<Rightarrow> scan \<Rightarrow> int \<Rightarrow> (string \<times> (string \<times> pyobj) list) list \<Rightarrow> unit db" where
  "insert_cavities lib self sid [] = return_db ()"
| "insert_cavities lib self sid ((cav, data) # rest) =
     bind_db (insert_signals lib self sid cav (map fst data)) (\<lambda>u.
     insert_cavities lib self sid rest)"

text \<open>The \<^verbatim>\<open>try\<close> block after the cursor is open, up to and with the commit.\<close>

definition insert_rows :: "ext \<Rightarrow> scan \<Rightarrow> unit db" where
  "insert_rows lib self =
     bind_db (execute (InsertScan (utc_string lib (scan_start self))
                                  (utc_string lib (scan_end self)))) (\<lambda>u.
     bind_db (execute SelectLastInsertId) (\<lambda>u.
     bind_db fetchone_id (\<lambda>sid.
     bind_db (insert_cavities lib self sid (waveform_data self)) (\<lambda>u.
     bind_db (insert_scan_fdata self sid) (\<lambda>u.
     bind_db (insert_scan_sdata self sid) (\<lambda>u.
     commit))))))"

text \<open>
  \<^verbatim>\<open>insert_data\<close>: the handler rolls back, closes the cursor when there is one, and
  raises the exception it caught. The method assigns no attribute of \<^verbatim>\<open>self\<close>; the
  object is returned to show it.
\<close>

definition insert_data :: "ext \<Rightarrow> conn \<Rightarrow> scan \<Rightarrow> (error + unit) \<times> conn \<times> scan" where
  "insert_data lib c self =
     (case cursor c of
        (Inl e, c1) \<Rightarrow> (Inl e, rollback c1, self)
      | (Inr u, c1) \<Rightarrow>
          (case insert_rows lib self c1 of
             (Inl e, c2) \<Rightarrow> (Inl e, close (rollback c2), self)
           | (Inr v, c2) \<Rightarrow> (Inr (), c2, self)))"

text \<open>
  The statements that the description of \<^verbatim>\<open>insert_data\<close> asks for, written from its
  words: one insert of the scan row, whose id is read back; for every pair of a cavity
  and a signal other than \<^verbatim>\<open>"Time"\<close>, in the order of the dictionaries, one insert of
  the waveform row, whose id is read back, one bulk insert of the array rows (the row
  \<^verbatim>\<open>"raw"\<close> with the waveform, then one row for each derived array) and one bulk
  insert of the scalar rows (one for each metric); then one bulk insert for each of
  the two maps of metadata that is not empty. \<open>sid\<close> is the id that the database gives
  the scan row and \<open>wid0\<close> the id it gives the first waveform row.
\<close>

definition signal_pairs :: "(string \<times> (string \<times> pyobj) list) list \<Rightarrow> (string \<times> string) list" where
  "signal_pairs wd =
     concat (map (\<lambda>(cav, data).
                    map (\<lambda>signal_name. (cav, signal_name))
                        (filter (\<lambda>signal_name. signal_name \<noteq> ''Time'') (map fst data))) wd)"

definition waveform_statements :: "ext \<Rightarrow> scan \<Rightarrow> int \<Rightarrow> int \<Rightarrow> string \<times> string \<Rightarrow> stmt list" where
  "waveform_statements lib self sid wid p =
     (case p of (cav, signal_name) \<Rightarrow>
        [InsertWaveform sid cav signal_name (the (map_of (sampling_rate self) cav)),
         SelectLastInsertId,
         InsertWaveformAdata
           ((wid, ''raw'',
             projr (json_dumps lib
               (projr (tolist (the (map_of (the (map_of (waveform_data self) cav)) signal_name))))))
            # map (\<lambda>(arr_name, a). (wid, arr_name, projr (json_dumps lib (map Num a))))
                  (the (map_of (the (map_of (analysis_array self) cav)) signal_name))),
         InsertWaveformSdata
           (map (\<lambda>(metric_name, v). (wid, metric_name, v))
                (the (map_of (the (map_of (analysis_scalar self) cav)) signal_name)))])"

definition expected_statements :: "ext \<Rightarrow> scan \<Rightarrow> int \<Rightarrow> int \<Rightarrow> stmt list" where
  "expected_statements lib self sid wid0 =
     [InsertScan (utc_string lib (scan_start self)) (utc_string lib (scan_end self)),
      SelectLastInsertId]
     @ concat (map (\<lambda>(i, p). waveform_statements lib self sid (wid0 + int i) p)
                   (enumerate 0 (signal_pairs (waveform_data self))))
     @ (if scan_data_float self = [] then []
        else [InsertScanFdata (map (\<lambda>(k, v). (sid, k, v)) (scan_data_float self))])
     @ (if scan_data_str self = [] then []
        else [InsertScanSdata (map (\<lambda>(k, v). (sid, k, v)) (scan_data_str self))])"

section \<open>The Query object\<close>

text \<open>
  A row of a result set is a dictionary from column names to cells.
  \<^verbatim>\<open>pd.DataFrame(rows)\<close> has one record for each row; its columns are the keys of the
  rows in the order of their first appearance, and a row without a key has NaN there.
\<close>

datatype cell = IntCell int | RealCell real | StrCell string | NaNCell

type_synonym row = "(string \<times> cell) list"

record dataframe =
  columns :: "string list"
  records :: "cell list list"

definition DataFrame :: "row list \<Rightarrow> dataframe" where
  "DataFrame rows =
     (let cols = rev (remdups (rev (concat (map (map fst) rows))))
      in \<lparr>columns = cols,
          records = map (\<lambda>r. map (\<lambda>col. case map_of r col of None \<Rightarrow> NaNCell | Some v \<Rightarrow> v) cols)
                        rows\<rparr>)"

text \<open>\<^verbatim>\<open>len(df)\<close>, and \<^verbatim>\<open>df.sid.values.tolist()\<close>, which raises when there is no such
  column.\<close>

definition len_df :: "dataframe \<Rightarrow> nat" where
  "len_df df = length (records df)"

fun index_of :: "string \<Rightarrow> string list \<Rightarrow> nat option" where
  "index_of k [] = None"
| "index_of k (x # xs) = (if x = k then Some 0 else map_option Suc (index_of k xs))"

definition column_values :: "dataframe \<Rightarrow> string \<Rightarrow> error + cell list" where
  "column_values df col =
     (case index_of col (columns df) of
        None \<Rightarrow> Inl AttributeError
      | Some i \<Rightarrow> Inr (map (\<lambda>r. r ! i) (records df)))"

text \<open>
  Modelled from the spec: the persistence collaborator \<^verbatim>\<open>WaveformDB\<close> and the filter
  \<^verbatim>\<open>QueryFilter\<close> of \<^verbatim>\<open>rfscopedb/db.py\<close> are not in the file. The spec gives the three
  queries of \<^verbatim>\<open>WaveformDB\<close>, which return row dictionaries, and takes the filter as an
  opaque object. A query may raise. The attribute \<^verbatim>\<open>self.db\<close> is a reference to the
  collaborator, so the methods take it, as it is at the call, as an argument.
\<close>

typedecl query_filter

record waveform_db =
  query_scan_rows ::
    "datetime option \<Rightarrow> datetime option \<Rightarrow> query_filter option \<Rightarrow> error + row list"
  query_waveform_data ::
    "cell list \<Rightarrow> string list \<Rightarrow> string list option \<Rightarrow> error + row list"
  query_waveform_metadata ::
    "cell list \<Rightarrow> string list \<Rightarrow> string list option \<Rightarrow> error + row list"

text \<open>The attributes of \<^verbatim>\<open>Query\<close>; \<^verbatim>\<open>begin\<close> and \<^verbatim>\<open>end\<close> are \<open>query_begin\<close> and
  \<open>query_end\<close>.\<close>

record query =
  signal_names :: "string list"
  array_names :: "string list option"
  query_begin :: "datetime option"
  query_end :: "datetime option"
  scan_filter :: "query_filter option"
  wf_metric_names :: "string list option"
  staged :: bool
  scan_meta :: "dataframe option"
  wf_data :: "dataframe option"
  wf_meta :: "dataframe option"

definition Query ::
  "string list \<Rightarrow> string list option \<Rightarrow> datetime option \<Rightarrow> datetime option
     \<Rightarrow> query_filter option \<Rightarrow> string list option \<Rightarrow> query" where
  "Query names arrs b e flt metrics =
     \<lparr>signal_names = names, array_names = arrs, query_begin = b, query_end = e,
      scan_filter = flt, wf_metric_names = metrics,
      staged = False, scan_meta = None, wf_data = None, wf_meta = None\<rparr>"

definition stage :: "waveform_db \<Rightarrow> query \<Rightarrow> (error + unit) \<times> query" where
  "stage db self =
     (case query_scan_rows db (query_begin self) (query_end self) (scan_filter self) of
        Inl e \<Rightarrow> (Inl e, self)
      | Inr scan_rows \<Rightarrow>
          (Inr (), self\<lparr>scan_meta := Some (DataFrame scan_rows), staged := True\<rparr>))"

text \<open>\<^verbatim>\<open>len(None)\<close> raises a TypeError.\<close>

definition get_scan_count :: "query \<Rightarrow> error + nat" where
  "get_scan_count self =
     (case scan_meta self of None \<Rightarrow> Inl TypeError | Some df \<Rightarrow> Inr (len_df df))"

text \<open>\<^verbatim>\<open>self.scan_meta.sid.values.tolist()\<close>; \<^verbatim>\<open>None\<close> has no attribute \<^verbatim>\<open>sid\<close>.\<close>

definition staged_sids :: "query \<Rightarrow> error + cell list" where
  "staged_sids self =
     (case scan_meta self of
        None \<Rightarrow> Inl AttributeError
      | Some df \<Rightarrow> column_values df ''sid'')"

definition run :: "waveform_db \<Rightarrow> query \<Rightarrow> (error + unit) \<times> query" where
  "run db self =
     (if \<not> staged self then (Inl RuntimeError, self)
      else
        case bind_err (staged_sids self)
               (\<lambda>sids. query_waveform_data db sids (signal_names self) (array_names self)) of
          Inl e \<Rightarrow> (Inl e, self)
        | Inr rows \<Rightarrow>
            (let self1 = self\<lparr>wf_data := Some (DataFrame rows)\<rparr>
             in case bind_err (staged_sids self1)
                       (\<lambda>sids. query_waveform_metadata db sids (signal_names self1)
                                  (wf_metric_names self1)) of
                  Inl e \<Rightarrow> (Inl e, self1)
                | Inr rows2 \<Rightarrow> (Inr (), self1\<lparr>wf_meta := Some (DataFrame rows2)\<rparr>)))"

section \<open>Example objects\<close>

text \<open>A library whose periodogram returns a single bin, and a connection on which no
  call raises.\<close>

definition example_lib :: ext where
  "example_lib =
     \<lparr>periodogram = (\<lambda>xs fs. ([0], [0])),
      json_dumps = (\<lambda>l. Inr ''[]''),
      utc_string = (\<lambda>t. ''2024-01-01 00:00:00.000000'')\<rparr>"

definition example_conn :: conn where
  "example_conn =
     \<lparr>committed = [], pending = [], next_sid = 1, next_wid = 1, last_insert_id = 0,
      statements = [], open_cursors = 0, calls = 0, faults = (\<lambda>k. None)\<rparr>"

text \<open>A database whose metadata query returns \<open>n\<close> scans.\<close>

definition example_db :: "nat \<Rightarrow> waveform_db" where
  "example_db n =
     \<lparr>query_scan_rows = (\<lambda>b e flt. Inr (map (\<lambda>i. [(''sid'', IntCell (int i))]) [0..<n])),
      query_waveform_data = (\<lambda>sids names arrs. Inr []),
      query_waveform_metadata = (\<lambda>sids names metrics. Inr [])\<rparr>"

text \<open>The signals of one cavity: a time axis and two constant waveforms of 8192
  ones. The Scan that has this cavity and one text entry of metadata, and a connection
  on which the call number 7, the insert of the second waveform row, raises.\<close>

definition example_data :: "(string \<times> pyobj) list" where
  "example_data =
     [(''Time'', PyOther),
      (''GMES'', NdArray (replicate 8192 (Num 1))),
      (''PMES'', NdArray (replicate 8192 (Num 1)))]"

definition example_scan :: scan where
  "example_scan =
     snd (add_scan_data [] [(''mode'', ''on'')]
            (snd (add_cavity_data example_lib ''R1'' example_data 5000 (Scan 0 1 None))))"


section \<open>Scan-level metadata\<close>

lemma map_of_dict_update:
  "distinct (map fst other) \<Longrightarrow> map_of (dict_update d other) = map_of d ++ map_of other"
  unfolding dict_update_def
proof (induction other arbitrary: d)
  case Nil
  then show ?case by simp
next
  case (Cons p ps)
  obtain k v where p: "p = (k, v)" by (cases p)
  from Cons.prems p have "map_of ps k = None"
    by (simp add: map_of_eq_None_iff)
  with Cons show ?case
    by (auto simp: p update_conv' map_add_def fun_eq_iff split: option.splits)
qed

lemma find_overlap_None:
  "find (\<lambda>k. k \<in> S) xs = None \<longleftrightarrow> set xs \<inter> S = {}"
  by (induction xs) auto

lemma find_overlap_Some:
  "find (\<lambda>k. k \<in> S) xs = Some k \<Longrightarrow> k \<in> set xs \<inter> S"
  by (induction xs) (auto split: if_splits)

text \<open>
  C8: \<^verbatim>\<open>add_scan_data(float_data, str_data)\<close> raises if and only if some key is in
  both dictionaries of the call, and what it raises is a ValueError; otherwise each
  map of the Scan is the old map overwritten by the new items, so a key of an earlier
  call is accepted and gets the new value. The two arguments are dictionaries: their
  keys are distinct.
\<close>

theorem add_scan_data_validation:
  assumes "distinct (map fst float_data)" and "distinct (map fst str_data)"
  shows "(isl (fst (add_scan_data float_data str_data self))
            \<longleftrightarrow> set (map fst float_data) \<inter> set (map fst str_data) \<noteq> {})
       \<and> (isl (fst (add_scan_data float_data str_data self))
            \<longrightarrow> fst (add_scan_data float_data str_data self) = Inl ValueError)
       \<and> (\<not> isl (fst (add_scan_data float_data str_data self)) \<longrightarrow>
            map_of (scan_data_float (snd (add_scan_data float_data str_data self)))
              = map_of (scan_data_float self) ++ map_of float_data
          \<and> map_of (scan_data_str (snd (add_scan_data float_data str_data self)))
              = map_of (scan_data_str self) ++ map_of str_data)"
proof (cases "find (\<lambda>k. k \<in> set (map fst str_data)) (map fst float_data)")
  case None
  then have "set (map fst float_data) \<inter> set (map fst str_data) = {}"
    by (simp only: find_overlap_None)
  with None assms show ?thesis
    by (simp add: add_scan_data_def map_of_dict_update)
next
  case (Some k)
  then have "k \<in> set (map fst float_data) \<inter> set (map fst str_data)"
    by (rule find_overlap_Some)
  then have "set (map fst float_data) \<inter> set (map fst str_data) \<noteq> {}"
    by blast
  with Some show ?thesis
    by (simp add: add_scan_data_def)
qed

text \<open>The two calls of the spec: \<^verbatim>\<open>{"A": 1.0}, {"B": "x"}\<close> is accepted, also on a Scan
  that has a text entry \<^verbatim>\<open>"A"\<close> from an earlier call, and
  \<^verbatim>\<open>{"A": 1.0}, {"A": "x"}\<close> is refused.\<close>

theorem add_scan_data_validation_witness:
  "distinct (map fst [(''A'', 1::real)]) \<and> distinct (map fst [(''B'', ''x'')])
   \<and> distinct (map fst [(''A'', ''x'')])
   \<and> \<not> isl (fst (add_scan_data [(''A'', 1)] [(''B'', ''x'')]
                  ((Scan 0 1 None)\<lparr>scan_data_str := [(''A'', ''y'')]\<rparr>)))
   \<and> map_of (scan_data_float (snd (add_scan_data [(''A'', 1)] [(''B'', ''x'')]
                  ((Scan 0 1 None)\<lparr>scan_data_str := [(''A'', ''y'')]\<rparr>)))) ''A'' = Some 1
   \<and> map_of (scan_data_str (snd (add_scan_data [(''A'', 1)] [(''B'', ''x'')]
                  ((Scan 0 1 None)\<lparr>scan_data_str := [(''A'', ''y'')]\<rparr>)))) ''B'' = Some ''x''
   \<and> fst (add_scan_data [(''A'', 1)] [(''A'', ''x'')] (Scan 0 1 None)) = Inl ValueError"
proof -
  have d1: "distinct (map fst [(''A'', 1::real)])" by simp
  have d2: "distinct (map fst [(''B'', ''x'')])" by simp
  have d3: "distinct (map fst [(''A'', ''x'')])" by simp
  from add_scan_data_validation [OF d1 d2,
      of "(Scan 0 1 None)\<lparr>scan_data_str := [(''A'', ''y'')]\<rparr>"]
    add_scan_data_validation [OF d1 d3, of "Scan 0 1 None"]
  show ?thesis by simp
qed

text \<open>
  C10: when \<^verbatim>\<open>add_scan_data\<close> raises, the Scan is as it was before the call: the
  check of the two incoming dictionaries is over before either map is updated.
\<close>

theorem add_scan_data_error_keeps_state:
  "fst (add_scan_data float_data str_data self) = Inl e \<Longrightarrow>
     snd (add_scan_data float_data str_data self) = self"
  by (auto simp: add_scan_data_def split: option.splits)

theorem add_scan_data_error_keeps_state_witness:
  "fst (add_scan_data [(''A'', 1)] [(''A'', ''x'')] (Scan 0 1 None)) = Inl ValueError
   \<and> snd (add_scan_data [(''A'', 1)] [(''A'', ''x'')] (Scan 0 1 None)) = Scan 0 1 None"
proof -
  have e: "fst (add_scan_data [(''A'', 1)] [(''A'', ''x'')] (Scan 0 1 None)) = Inl ValueError"
    by (simp add: add_scan_data_def)
  from e add_scan_data_error_keeps_state [OF e] show ?thesis by simp
qed

section \<open>The frequency axis of the power spectrum\<close>

text \<open>
  C5, as amended: for every sampling frequency \<open>fs\<close> and every sample count \<open>n > 0\<close>,
  \<^verbatim>\<open>get_frequency_range(fs, n)\<close> returns the frequencies \<open>i * fs / n\<close> for \<open>i\<close> from 0 to
  \<open>n div 2\<close>: \<open>n div 2 + 1\<close> of them, the first one 0, and, when \<open>n\<close> is even, the
  last one the Nyquist frequency \<open>fs / 2\<close>.
\<close>

theorem get_frequency_range_axis:
  assumes "0 < n"
  shows "\<exists>l. get_frequency_range fs n = Inr l
           \<and> length l = nat (n div 2) + 1
           \<and> (\<forall>i \<le> nat (n div 2). l ! i = real i * fs / real_of_int n)
           \<and> hd l = 0
           \<and> (even n \<longrightarrow> last l = fs / 2)"
proof -
  let ?m = "nat (n div 2)"
  let ?l = "map (\<lambda>i. real i * fs / real_of_int n) [0..<Suc ?m]"
  from assms have stop: "nat (int_half n + 1) = Suc ?m"
    by (simp add: int_half_def nat_add_distrib)
  from assms stop have res: "get_frequency_range fs n = Inr ?l"
    by (simp add: get_frequency_range_def)
  have len: "length ?l = ?m + 1" by simp
  have nth: "\<forall>i \<le> ?m. ?l ! i = real i * fs / real_of_int n"
    by (auto simp del: upt_Suc simp: nth_map_upt less_Suc_eq_le)
  have hd0: "hd ?l = 0"
    by (simp del: upt_Suc add: hd_map upt_conv_Cons)
  have lst: "even n \<longrightarrow> last ?l = fs / 2"
  proof
    assume "even n"
    then obtain k where k: "n = 2 * k" by (elim evenE)
    with assms have "0 < k" by simp
    then have "real (nat k) = real_of_int k" by simp
    with k \<open>0 < k\<close> show "last ?l = fs / 2"
      by (simp add: last_map)
  qed
  from res len nth hd0 lst show ?thesis by blast
qed

text \<open>The call of the spec: 5000 Hz and 8192 samples.\<close>

theorem get_frequency_range_axis_witness:
  "(0::int) < 8192
   \<and> (\<exists>l. get_frequency_range 5000 8192 = Inr l
          \<and> length l = 4097 \<and> hd l = 0 \<and> last l = 2500)"
proof -
  have pos: "(0::int) < 8192" by simp
  from get_frequency_range_axis [OF pos, of 5000] show ?thesis
    by auto
qed

text \<open>For three samples the last frequency is \<open>fs / 3\<close>, below the Nyquist frequency,
  and for no sample the division raises.\<close>

theorem get_frequency_range_odd_and_zero:
  "get_frequency_range 5000 3 = Inr [0, 5000 / 3]
   \<and> last [0, 5000 / 3] \<noteq> (5000::real) / 2
   \<and> get_frequency_range 5000 0 = Inl ZeroDivisionError"
  by (simp add: get_frequency_range_def int_half_def upt_conv_Cons)

section \<open>The signal analyzer: validation and metrics\<close>



lemma takeWhile_stops:
  "\<exists>x\<in>set xs. \<not> P x \<Longrightarrow> length (takeWhile P xs) < length xs"
  by (induction xs) auto

lemma np_argmax_max:
  assumes "xs \<noteq> []"
  shows "np_argmax xs < length xs \<and> xs ! np_argmax xs = Max (set xs)"
proof -
  from assms have "Max (set xs) \<in> set xs" by (intro Max_in) simp_all
  then have "\<exists>x\<in>set xs. \<not> x \<noteq> Max (set xs)" by blast
  then have lt: "length (takeWhile (\<lambda>x. x \<noteq> Max (set xs)) xs) < length xs"
    by (rule takeWhile_stops)
  from nth_length_takeWhile [OF lt] lt show ?thesis
    by (simp add: np_argmax_def)
qed



section \<open>The staging protocol of Query\<close>

text \<open>
  C7: on a Query object on which \<^verbatim>\<open>stage()\<close> has not been called, \<^verbatim>\<open>run()\<close> raises
  the usage error (a RuntimeError) and changes nothing, so \<^verbatim>\<open>wf_data\<close> and
  \<^verbatim>\<open>wf_meta\<close> stay unpopulated; after a \<^verbatim>\<open>stage()\<close> whose metadata query returns its
  rows, \<^verbatim>\<open>get_scan_count()\<close> is the number of these rows; and a later \<^verbatim>\<open>stage()\<close>
  replaces the staged metadata by the rows of its own query.
\<close>

theorem query_protocol:
  "run db (Query names arrs b e flt metrics) = (Inl RuntimeError, Query names arrs b e flt metrics)
   \<and> wf_data (Query names arrs b e flt metrics) = None
   \<and> wf_meta (Query names arrs b e flt metrics) = None
   \<and> (\<not> staged self \<longrightarrow> run db self = (Inl RuntimeError, self))
   \<and> (\<forall>scan_rows.
        query_scan_rows db (query_begin self) (query_end self) (scan_filter self) = Inr scan_rows
        \<longrightarrow> fst (stage db self) = Inr ()
          \<and> staged (snd (stage db self))
          \<and> scan_meta (snd (stage db self)) = Some (DataFrame scan_rows)
          \<and> get_scan_count (snd (stage db self)) = Inr (length scan_rows)
          \<and> (\<forall>db2 rows2.
                query_scan_rows db2 (query_begin self) (query_end self) (scan_filter self)
                  = Inr rows2
                \<longrightarrow> fst (stage db2 (snd (stage db self))) = Inr ()
                  \<and> scan_meta (snd (stage db2 (snd (stage db self)))) = Some (DataFrame rows2)
                  \<and> get_scan_count (snd (stage db2 (snd (stage db self))))
                      = Inr (length rows2)))"
  by (auto simp: run_def Query_def stage_def get_scan_count_def len_df_def DataFrame_def Let_def)

text \<open>A query that is run too early, staged on a database with two scans, and staged
  again when the database has one.\<close>

theorem query_protocol_witness:
  "\<not> staged (Query [''GMES''] None None None None None)
   \<and> run (example_db 2) (Query [''GMES''] None None None None None)
       = (Inl RuntimeError, Query [''GMES''] None None None None None)
   \<and> get_scan_count (snd (stage (example_db 2) (Query [''GMES''] None None None None None)))
       = Inr 2
   \<and> get_scan_count (snd (stage (example_db 1)
        (snd (stage (example_db 2) (Query [''GMES''] None None None None None)))))
       = Inr 1"
proof -
  let ?q = "Query [''GMES''] None None None None None"
  have u: "\<not> staged ?q" by (simp add: Query_def)
  have r2: "query_scan_rows (example_db 2) (query_begin ?q) (query_end ?q) (scan_filter ?q)
      = Inr (map (\<lambda>i. [(''sid'', IntCell (int i))]) [0..<2])"
    by (simp add: example_db_def)
  have r1: "query_scan_rows (example_db 1) (query_begin ?q) (query_end ?q) (scan_filter ?q)
      = Inr (map (\<lambda>i. [(''sid'', IntCell (int i))]) [0..<1])"
    by (simp add: example_db_def)
  from query_protocol [of "example_db 2" "[''GMES'']" None None None None None ?q] u r2 r1
  show ?thesis by simp
qed

section \<open>Writing a Scan: the object\<close>

text \<open>
  C2, as amended: \<^verbatim>\<open>insert_data\<close>, successful or not, assigns no attribute of the
  Scan object; a Scan constructed with \<^verbatim>\<open>id = None\<close> still has \<^verbatim>\<open>id = None\<close> after a
  successful call.
\<close>

theorem insert_data_keeps_scan:
  "snd (snd (insert_data lib c self)) = self"
  by (simp add: insert_data_def split: prod.splits sum.splits)

text \<open>A successful call on a new Scan: the call returns, and the id is still
  \<^verbatim>\<open>None\<close>.\<close>

theorem insert_data_id_stays_None:
  "fst (insert_data example_lib example_conn (Scan 0 1 None)) = Inr ()
   \<and> scan_id (snd (snd (insert_data example_lib example_conn (Scan 0 1 None)))) = None"
  by (simp add: insert_data_def cursor_def driver_call_def example_conn_def example_lib_def
      Scan_def insert_rows_def bind_db_def execute_def fetchone_id_def return_db_def
      insert_scan_fdata_def insert_scan_sdata_def commit_def)

section \<open>The analysis bundles of a Scan\<close>








lemma analyze_signal_value:
  assumes "as_sequence arr = Some es" and "list_all is_num es" and "length es = 8192"
    and "periodogram lib (map num_val es) fs = (f, pxx)"
    and "pxx \<noteq> []" and "length f = length pxx"
  shows "analyze_signal lib arr fs = Inr
                 ([(''minimum'', np_min (map num_val es)),
                   (''maximum'', np_max (map num_val es)),
                   (''peak_to_peak'', np_max (map num_val es) - np_min (map num_val es)),
                   (''mean'', np_mean (map num_val es)),
                   (''median'', np_median (map num_val es)),
                   (''standard_deviation'', np_std (map num_val es)),
                   (''rms'', sqrt (np_mean (np_square (map num_val es)))),
                   (''25th_quartile'', np_percentile (map num_val es) 25),
                   (''75th_quartile'', np_percentile (map num_val es) 75),
                   (''dominant_frequency'', f ! np_argmax pxx)],
                  [(''power_spectrum'', pxx)])"
proof -
  from assms(5) have "np_argmax pxx < length pxx"
    using np_argmax_max by blast
  with assms(6) have "\<not> length f \<le> np_argmax pxx" by simp
  with assms show ?thesis
    by (simp add: analyze_signal_def Let_def)
qed

lemma analyze_signal_ones:
  "\<exists>scalars. analyze_signal example_lib (NdArray (replicate 8192 (Num 1))) 5000
      = Inr (scalars, [(''power_spectrum'', [0])])"
proof -
  have h1: "as_sequence (NdArray (replicate 8192 (Num 1))) = Some (replicate 8192 (Num 1))"
    by simp
  have h2: "list_all is_num (replicate 8192 (Num 1))"
    by (simp add: list_all_iff)
  have h3: "length (replicate 8192 (Num 1)) = 8192" by simp
  have h4: "periodogram example_lib (map num_val (replicate 8192 (Num 1))) 5000 = ([0], [0])"
    by (simp add: example_lib_def)
  have h5: "[0::real] \<noteq> []" by simp
  have h6: "length [0::real] = length [0::real]" by simp
  from analyze_signal_value [OF h1 h2 h3 h4 h5 h6] show ?thesis by blast
qed




section \<open>Writing a Scan: the transaction\<close>




















text \<open>The example Scan, attribute by attribute.\<close>

lemma example_data_names: "map fst example_data = [''Time'', ''GMES'', ''PMES'']"
  by (simp add: example_data_def)

lemma example_data_lookup:
  "map_of example_data ''GMES'' = Some (NdArray (replicate 8192 (Num 1)))"
  "map_of example_data ''PMES'' = Some (NdArray (replicate 8192 (Num 1)))"
  by (simp_all add: example_data_def)

lemma example_cavity_fields:
  assumes an: "analyze_signal example_lib (NdArray (replicate 8192 (Num 1))) 5000
      = Inr (scalars, [(''power_spectrum'', [0])])"
  shows "waveform_data (snd (add_cavity_data example_lib ''R1'' example_data 5000 (Scan 0 1 None)))
           = [(''R1'', example_data)]"
    and "sampling_rate (snd (add_cavity_data example_lib ''R1'' example_data 5000 (Scan 0 1 None)))
           = [(''R1'', 5000)]"
    and "analysis_scalar (snd (add_cavity_data example_lib ''R1'' example_data 5000 (Scan 0 1 None)))
           = [(''R1'', [(''GMES'', scalars), (''PMES'', scalars)])]"
    and "analysis_array (snd (add_cavity_data example_lib ''R1'' example_data 5000 (Scan 0 1 None)))
           = [(''R1'', [(''GMES'', [(''power_spectrum'', [0])]),
                       (''PMES'', [(''power_spectrum'', [0])])])]"
    and "scan_data_float (snd (add_cavity_data example_lib ''R1'' example_data 5000 (Scan 0 1 None)))
           = []"
    and "scan_data_str (snd (add_cavity_data example_lib ''R1'' example_data 5000 (Scan 0 1 None)))
           = []"
    and "scan_start (snd (add_cavity_data example_lib ''R1'' example_data 5000 (Scan 0 1 None))) = 0"
    and "scan_end (snd (add_cavity_data example_lib ''R1'' example_data 5000 (Scan 0 1 None))) = 1"
  by (simp_all add: add_cavity_data_def Scan_def example_data_names example_data_lookup an
      getitem_def setitem2_def dict_update_def)

lemma example_scan_fields:
  assumes an: "analyze_signal example_lib (NdArray (replicate 8192 (Num 1))) 5000
      = Inr (scalars, [(''power_spectrum'', [0])])"
  shows "waveform_data example_scan = [(''R1'', example_data)]"
    and "sampling_rate example_scan = [(''R1'', 5000)]"
    and "analysis_scalar example_scan = [(''R1'', [(''GMES'', scalars), (''PMES'', scalars)])]"
    and "analysis_array example_scan
           = [(''R1'', [(''GMES'', [(''power_spectrum'', [0])]),
                       (''PMES'', [(''power_spectrum'', [0])])])]"
    and "scan_data_float example_scan = []"
    and "scan_data_str example_scan = [(''mode'', ''on'')]"
    and "scan_start example_scan = 0"
    and "scan_end example_scan = 1"
  by (simp_all add: example_scan_def add_scan_data_def dict_update_def
      example_cavity_fields [OF an])

text \<open>The run on the connection whose call number 7 raises: the cursor opens, the
  insert of the second waveform row raises, and rows are pending at that moment.\<close>

lemmas db_defs = cursor_def driver_call_def insert_rows_def bind_db_def execute_def
  fetchone_id_def insert_waveform_def lift_db_def return_db_def getitem_def
  insert_waveform_adata_def array_data_def bind_err_def insert_waveform_sdata_def
  scalar_data_def insert_scan_fdata_def insert_scan_sdata_def commit_def



section \<open>Writing a Scan: the statements\<close>

text \<open>What a step that returns has issued, and the waveform id that the database gave.\<close>

lemma bind_db_Inr:
  "bind_db m f c = (Inr r, c'') \<Longrightarrow> \<exists>x c'. m c = (Inr x, c') \<and> f x c' = (Inr r, c'')"
  by (auto simp: bind_db_def split: prod.splits sum.splits)

lemma bind_err_Inr:
  "bind_err r f = Inr y \<Longrightarrow> \<exists>x. r = Inr x \<and> f x = Inr y"
  by (auto simp: bind_err_def split: sum.splits)

lemma getitem_Inr: "getitem d k = Inr v \<Longrightarrow> map_of d k = Some v"
  by (auto simp: getitem_def split: option.splits)

lemma driver_call_fields:
  "driver_call c = (r, c') \<Longrightarrow>
     statements c' = statements c \<and> next_wid c' = next_wid c \<and> next_sid c' = next_sid c
     \<and> last_insert_id c' = last_insert_id c"
  by (auto simp: driver_call_def split: option.splits)

lemma execute_Inr:
  "execute st c = (Inr u, c') \<Longrightarrow>
     \<exists>c1. c' = effect st c1 \<and> statements c1 = statements c @ [st]
        \<and> next_wid c1 = next_wid c \<and> next_sid c1 = next_sid c
        \<and> last_insert_id c1 = last_insert_id c"
  by (auto simp: execute_def split: prod.splits sum.splits dest!: driver_call_fields)

lemma insert_waveform_Inr:
  assumes "insert_waveform self sid cav n c = (Inr wid, c')"
  shows "wid = next_wid c \<and> next_wid c' = next_wid c + 1 \<and> next_sid c' = next_sid c
       \<and> statements c' = statements c
            @ [InsertWaveform sid cav n (the (map_of (sampling_rate self) cav)),
               SelectLastInsertId]"
proof -
  from assms obtain rate c1 c2 where
    r: "getitem (sampling_rate self) cav = Inr rate"
    and e1: "execute (InsertWaveform sid cav n rate) c = (Inr (), c1)"
    and e2: "execute SelectLastInsertId c1 = (Inr (), c2)"
    and f: "fetchone_id c2 = (Inr wid, c')"
    unfolding insert_waveform_def
    by (auto simp: lift_db_def dest!: bind_db_Inr)
  from r have rate: "the (map_of (sampling_rate self) cav) = rate"
    by (auto dest: getitem_Inr)
  from execute_Inr [OF e1] execute_Inr [OF e2] f rate show ?thesis
    by (auto simp: fetchone_id_def)
qed

lemma derived_rows_Inr:
  "derived_rows lib wid arrs = Inr rows \<Longrightarrow>
     rows = map (\<lambda>(arr_name, a). (wid, arr_name, projr (json_dumps lib (map Num a)))) arrs"
proof (induction arrs arbitrary: rows)
  case Nil
  then show ?case by simp
next
  case (Cons p arrs)
  obtain arr_name a where p: "p = (arr_name, a)" by (cases p)
  from Cons.prems p obtain j rest where
    "json_dumps lib (map Num a) = Inr j" "derived_rows lib wid arrs = Inr rest"
    "rows = (wid, arr_name, j) # rest"
    by (auto dest!: bind_err_Inr)
  with Cons.IH p show ?case by simp
qed

lemma array_data_Inr:
  assumes "array_data lib self wid cav n = Inr rows"
  shows "rows =
     (wid, ''raw'',
       projr (json_dumps lib
         (projr (tolist (the (map_of (the (map_of (waveform_data self) cav)) n))))))
     # map (\<lambda>(arr_name, a). (wid, arr_name, projr (json_dumps lib (map Num a))))
           (the (map_of (the (map_of (analysis_array self) cav)) n))"
proof -
  from assms obtain data arr l raw by_signal arrs drows where
    "getitem (waveform_data self) cav = Inr data" "getitem data n = Inr arr"
    "tolist arr = Inr l" "json_dumps lib l = Inr raw"
    "getitem (analysis_array self) cav = Inr by_signal" "getitem by_signal n = Inr arrs"
    "derived_rows lib wid arrs = Inr drows" "rows = (wid, ''raw'', raw) # drows"
    unfolding array_data_def
    by (auto dest!: bind_err_Inr)
  then show ?thesis
    by (auto dest!: getitem_Inr derived_rows_Inr)
qed

lemma insert_waveform_adata_Inr:
  assumes "insert_waveform_adata lib self wid cav n c = (Inr u, c')"
  shows "next_wid c' = next_wid c \<and> next_sid c' = next_sid c
       \<and> statements c' = statements c @ [InsertWaveformAdata
           ((wid, ''raw'',
              projr (json_dumps lib
                (projr (tolist (the (map_of (the (map_of (waveform_data self) cav)) n))))))
            # map (\<lambda>(arr_name, a). (wid, arr_name, projr (json_dumps lib (map Num a))))
                  (the (map_of (the (map_of (analysis_array self) cav)) n)))]"
proof -
  from assms obtain rows where
    a: "array_data lib self wid cav n = Inr rows"
    and e: "execute (InsertWaveformAdata rows) c = (Inr (), c')"
    unfolding insert_waveform_adata_def
    by (auto simp: lift_db_def dest!: bind_db_Inr)
  from execute_Inr [OF e] array_data_Inr [OF a] show ?thesis
    by auto
qed

lemma insert_waveform_sdata_Inr:
  assumes "insert_waveform_sdata self wid cav n c = (Inr u, c')"
  shows "next_wid c' = next_wid c \<and> next_sid c' = next_sid c
       \<and> statements c' = statements c @ [InsertWaveformSdata
           (map (\<lambda>(metric_name, v). (wid, metric_name, v))
                (the (map_of (the (map_of (analysis_scalar self) cav)) n)))]"
proof -
  from assms obtain rows where
    a: "scalar_data self wid cav n = Inr rows"
    and e: "execute (InsertWaveformSdata rows) c = (Inr (), c')"
    unfolding insert_waveform_sdata_def
    by (auto simp: lift_db_def dest!: bind_db_Inr)
  from a have "rows = map (\<lambda>(metric_name, v). (wid, metric_name, v))
                (the (map_of (the (map_of (analysis_scalar self) cav)) n))"
    unfolding scalar_data_def
    by (auto dest!: bind_err_Inr getitem_Inr)
  with execute_Inr [OF e] show ?thesis
    by auto
qed

lemma enumerate_map:
  "enumerate k (map f xs) = map (\<lambda>(i, x). (i, f x)) (enumerate k xs)"
  by (induction xs arbitrary: k) simp_all

lemma insert_signals_Inr:
  assumes "insert_signals lib self sid cav names c = (Inr u, c')"
    and "next_wid c = w + int k"
  shows "next_wid c' = next_wid c + int (length (filter (\<lambda>n. n \<noteq> ''Time'') names))
       \<and> next_sid c' = next_sid c
       \<and> statements c' = statements c
            @ concat (map (\<lambda>(i, n). waveform_statements lib self sid (w + int i) (cav, n))
                          (enumerate k (filter (\<lambda>n. n \<noteq> ''Time'') names)))"
  using assms
proof (induction names arbitrary: c k)
  case Nil
  then show ?case by (simp add: return_db_def)
next
  case (Cons n names)
  show ?case
  proof (cases "n = ''Time''")
    case True
    with Cons.prems have "insert_signals lib self sid cav names c = (Inr u, c')"
      by simp
    from Cons.IH [OF this Cons.prems(2)] True show ?thesis by simp
  next
    case False
    with Cons.prems(1) obtain wid c1 c2 c3 where
      w: "insert_waveform self sid cav n c = (Inr wid, c1)"
      and a: "insert_waveform_adata lib self wid cav n c1 = (Inr (), c2)"
      and s: "insert_waveform_sdata self wid cav n c2 = (Inr (), c3)"
      and rest: "insert_signals lib self sid cav names c3 = (Inr u, c')"
      by (auto dest!: bind_db_Inr)
    note w' = insert_waveform_Inr [OF w]
    note a' = insert_waveform_adata_Inr [OF a]
    note s' = insert_waveform_sdata_Inr [OF s]
    from w' a' s' Cons.prems(2) have nw: "next_wid c3 = w + int (Suc k)"
      by simp
    from w' Cons.prems(2) have wid: "wid = w + int k" by simp
    from w' a' s' wid
    have st: "statements c3 = statements c @ waveform_statements lib self sid (w + int k) (cav, n)"
      by (simp add: waveform_statements_def)
    from w' a' s' have ns: "next_sid c3 = next_sid c" "next_wid c3 = next_wid c + 1"
      by simp_all
    from Cons.IH [OF rest nw] False st ns show ?thesis
      by simp
  qed
qed

lemma insert_cavities_Inr:
  assumes "insert_cavities lib self sid cavs c = (Inr u, c')"
    and "next_wid c = w + int k"
  shows "next_wid c' = next_wid c + int (length (signal_pairs cavs))
       \<and> next_sid c' = next_sid c
       \<and> statements c' = statements c
            @ concat (map (\<lambda>(i, p). waveform_statements lib self sid (w + int i) p)
                          (enumerate k (signal_pairs cavs)))"
  using assms
proof (induction cavs arbitrary: c k)
  case Nil
  then show ?case by (simp add: return_db_def signal_pairs_def)
next
  case (Cons p cavs)
  obtain cav data where p: "p = (cav, data)" by (cases p)
  let ?names = "filter (\<lambda>n. n \<noteq> ''Time'') (map fst data)"
  from Cons.prems(1) p obtain c1 where
    sig: "insert_signals lib self sid cav (map fst data) c = (Inr (), c1)"
    and rest: "insert_cavities lib self sid cavs c1 = (Inr u, c')"
    by (auto dest!: bind_db_Inr)
  note sig' = insert_signals_Inr [OF sig Cons.prems(2)]
  from sig' Cons.prems(2) have nw: "next_wid c1 = w + int (k + length ?names)"
    by simp
  have pairs: "signal_pairs (p # cavs) = map (\<lambda>n. (cav, n)) ?names @ signal_pairs cavs"
    by (simp add: signal_pairs_def p)
  have blk: "map (\<lambda>(i, n). waveform_statements lib self sid (w + int i) (cav, n))
                 (enumerate k ?names)
      = map (\<lambda>(i, p). waveform_statements lib self sid (w + int i) p)
            (enumerate k (map (\<lambda>n. (cav, n)) ?names))"
    by (simp add: enumerate_map comp_def case_prod_beta)
  from Cons.IH [OF rest nw] sig' show ?case
    by (simp add: pairs enumerate_append_eq blk)
qed

lemma insert_scan_fdata_Inr:
  assumes "insert_scan_fdata self sid c = (Inr u, c')"
  shows "statements c' = statements c
       @ (if scan_data_float self = [] then []
          else [InsertScanFdata (map (\<lambda>(k, v). (sid, k, v)) (scan_data_float self))])"
proof (cases "scan_data_float self = []")
  case True
  with assms show ?thesis
    by (simp add: insert_scan_fdata_def return_db_def)
next
  case False
  with assms have
    "execute (InsertScanFdata (map (\<lambda>(k, v). (sid, k, v)) (scan_data_float self))) c = (Inr u, c')"
    by (simp add: insert_scan_fdata_def)
  from execute_Inr [OF this] False show ?thesis by auto
qed

lemma insert_scan_sdata_Inr:
  assumes "insert_scan_sdata self sid c = (Inr u, c')"
  shows "statements c' = statements c
       @ (if scan_data_str self = [] then []
          else [InsertScanSdata (map (\<lambda>(k, v). (sid, k, v)) (scan_data_str self))])"
proof (cases "scan_data_str self = []")
  case True
  with assms show ?thesis
    by (simp add: insert_scan_sdata_def return_db_def)
next
  case False
  with assms have
    "execute (InsertScanSdata (map (\<lambda>(k, v). (sid, k, v)) (scan_data_str self))) c = (Inr u, c')"
    by (simp add: insert_scan_sdata_def)
  from execute_Inr [OF this] False show ?thesis by auto
qed

lemma commit_Inr: "commit c = (Inr u, c') \<Longrightarrow> statements c' = statements c"
  by (auto simp: commit_def split: prod.splits sum.splits dest!: driver_call_fields)

lemma cursor_Inr:
  "cursor c = (Inr u, c') \<Longrightarrow>
     statements c' = statements c \<and> next_wid c' = next_wid c \<and> next_sid c' = next_sid c"
  by (auto simp: cursor_def split: prod.splits sum.splits dest!: driver_call_fields)

lemma insert_rows_Inr:
  assumes "insert_rows lib self c = (Inr u, c')"
  shows "statements c' = statements c @ expected_statements lib self (next_sid c) (next_wid c)"
proof -
  let ?ins = "InsertScan (utc_string lib (scan_start self)) (utc_string lib (scan_end self))"
  from assms obtain c1 c2 c3 sid c4 c5 c6 where
    e1: "execute ?ins c = (Inr (), c1)"
    and e2: "execute SelectLastInsertId c1 = (Inr (), c2)"
    and f: "fetchone_id c2 = (Inr sid, c3)"
    and cav: "insert_cavities lib self sid (waveform_data self) c3 = (Inr (), c4)"
    and fd: "insert_scan_fdata self sid c4 = (Inr (), c5)"
    and sd: "insert_scan_sdata self sid c5 = (Inr (), c6)"
    and cm: "commit c6 = (Inr u, c')"
    unfolding insert_rows_def
    by (auto dest!: bind_db_Inr)
  from execute_Inr [OF e1] execute_Inr [OF e2] f
  have sid: "sid = next_sid c" and c3: "statements c3 = statements c @ [?ins, SelectLastInsertId]"
    and nw: "next_wid c3 = next_wid c + int 0"
    by (auto simp: fetchone_id_def)
  note cav' = insert_cavities_Inr [OF cav nw]
  note fd' = insert_scan_fdata_Inr [OF fd]
  note sd' = insert_scan_sdata_Inr [OF sd]
  from cav' fd' sd' commit_Inr [OF cm] c3 sid show ?thesis
    by (simp add: expected_statements_def)
qed

text \<open>
  C3: a call of \<^verbatim>\<open>insert_data\<close> that returns has issued exactly the statements of
  \<open>expected_statements\<close>, in this order: one insert of the scan row; for every pair of
  a cavity and a signal other than \<^verbatim>\<open>"Time"\<close>, one insert of the waveform row (scan
  id, cavity, signal, sampling rate), then one bulk insert of array rows, the row
  \<^verbatim>\<open>"raw"\<close> with the stored waveform and one row for each derived array, then one
  bulk insert with one scalar row for each metric; and an insert into \<^verbatim>\<open>scan_fdata\<close>
  (into \<^verbatim>\<open>scan_sdata\<close>) only when \<^verbatim>\<open>scan_data_float\<close> (\<^verbatim>\<open>scan_data_str\<close>) is not
  empty. Each generated id is read back by \<^verbatim>\<open>SELECT LAST_INSERT_ID()\<close>.
\<close>

theorem insert_data_statements:
  assumes "fst (insert_data lib c self) = Inr ()"
  shows "statements (fst (snd (insert_data lib c self)))
       = statements c @ expected_statements lib self (next_sid c) (next_wid c)"
proof -
  from assms obtain c1 c2 where
    cur: "cursor c = (Inr (), c1)"
    and rows: "insert_rows lib self c1 = (Inr (), c2)"
    and res: "insert_data lib c self = (Inr (), c2, self)"
    by (auto simp: insert_data_def split: prod.splits sum.splits)
  from cursor_Inr [OF cur] insert_rows_Inr [OF rows] res show ?thesis
    by simp
qed

text \<open>The example Scan on the working connection: two waveforms, no float metadata,
  one text entry.\<close>

lemma working_run:
  assumes an: "analyze_signal example_lib (NdArray (replicate 8192 (Num 1))) 5000
      = Inr (scalars, [(''power_spectrum'', [0])])"
  shows "fst (insert_data example_lib example_conn example_scan) = Inr ()"
  by (simp add: insert_data_def db_defs example_conn_def example_lib_def
      example_scan_fields [OF an] example_data_names example_data_lookup)

lemma example_expected:
  assumes an: "analyze_signal example_lib (NdArray (replicate 8192 (Num 1))) 5000
      = Inr (scalars, [(''power_spectrum'', [0])])"
  shows "expected_statements example_lib example_scan 1 1 =
     [InsertScan ''2024-01-01 00:00:00.000000'' ''2024-01-01 00:00:00.000000'',
      SelectLastInsertId,
      InsertWaveform 1 ''R1'' ''GMES'' 5000,
      SelectLastInsertId,
      InsertWaveformAdata [(1, ''raw'', ''[]''), (1, ''power_spectrum'', ''[]'')],
      InsertWaveformSdata (map (\<lambda>(metric_name, v). (1, metric_name, v)) scalars),
      InsertWaveform 1 ''R1'' ''PMES'' 5000,
      SelectLastInsertId,
      InsertWaveformAdata [(2, ''raw'', ''[]''), (2, ''power_spectrum'', ''[]'')],
      InsertWaveformSdata (map (\<lambda>(metric_name, v). (2, metric_name, v)) scalars),
      InsertScanSdata [(1, ''mode'', ''on'')]]"
  by (simp add: expected_statements_def signal_pairs_def waveform_statements_def
      example_lib_def example_scan_fields [OF an] example_data_names example_data_lookup)

theorem insert_data_statements_witness:
  "fst (insert_data example_lib example_conn example_scan) = Inr ()
   \<and> (\<exists>scalars.
        statements (fst (snd (insert_data example_lib example_conn example_scan))) =
          [InsertScan ''2024-01-01 00:00:00.000000'' ''2024-01-01 00:00:00.000000'',
           SelectLastInsertId,
           InsertWaveform 1 ''R1'' ''GMES'' 5000,
           SelectLastInsertId,
           InsertWaveformAdata [(1, ''raw'', ''[]''), (1, ''power_spectrum'', ''[]'')],
           InsertWaveformSdata (map (\<lambda>(metric_name, v). (1, metric_name, v)) scalars),
           InsertWaveform 1 ''R1'' ''PMES'' 5000,
           SelectLastInsertId,
           InsertWaveformAdata [(2, ''raw'', ''[]''), (2, ''power_spectrum'', ''[]'')],
           InsertWaveformSdata (map (\<lambda>(metric_name, v). (2, metric_name, v)) scalars),
           InsertScanSdata [(1, ''mode'', ''on'')]])"
proof -
  from analyze_signal_ones obtain scalars where
    an: "analyze_signal example_lib (NdArray (replicate 8192 (Num 1))) 5000
      = Inr (scalars, [(''power_spectrum'', [0])])" ..
  note ok = working_run [OF an]
  have c0: "statements example_conn = []" "next_sid example_conn = 1" "next_wid example_conn = 1"
    by (simp_all add: example_conn_def)
  from insert_data_statements [OF ok] c0 example_expected [OF an]
  have "statements (fst (snd (insert_data example_lib example_conn example_scan))) =
          [InsertScan ''2024-01-01 00:00:00.000000'' ''2024-01-01 00:00:00.000000'',
           SelectLastInsertId,
           InsertWaveform 1 ''R1'' ''GMES'' 5000,
           SelectLastInsertId,
           InsertWaveformAdata [(1, ''raw'', ''[]''), (1, ''power_spectrum'', ''[]'')],
           InsertWaveformSdata (map (\<lambda>(metric_name, v). (1, metric_name, v)) scalars),
           InsertWaveform 1 ''R1'' ''PMES'' 5000,
           SelectLastInsertId,
           InsertWaveformAdata [(2, ''raw'', ''[]''), (2, ''power_spectrum'', ''[]'')],
           InsertWaveformSdata (map (\<lambda>(metric_name, v). (2, metric_name, v)) scalars),
           InsertScanSdata [(1, ''mode'', ''on'')]]"
    by simp
  with ok show ?thesis by blast
qed

end
